theory Spec2Isabelle
  imports Complex_Main
begin

section \<open>JavaScript numbers\<close>

text \<open>
  The values of JavaScript's Number type that the sketches compute with. A finite double
  is modelled by the real number it denotes (\<open>Fin\<close>); the three special values are kept
  apart, since \<open>isNaN\<close>, the comparisons and \<open>Math.max\<close> treat them specially. Rounding,
  overflow of a finite operation to an infinity, and the sign of zero are not modelled:
  arithmetic on finite values is exact.
\<close>

datatype jsnum = Fin real | PInf | NInf | NaN

fun isNaN :: "jsnum \<Rightarrow> bool" where
  "isNaN NaN = True"
| "isNaN _ = False"

fun js_neg :: "jsnum \<Rightarrow> jsnum" where
  "js_neg (Fin a) = Fin (- a)"
| "js_neg PInf = NInf"
| "js_neg NInf = PInf"
| "js_neg NaN = NaN"

fun js_add :: "jsnum \<Rightarrow> jsnum \<Rightarrow> jsnum" where
  "js_add NaN _ = NaN"
| "js_add _ NaN = NaN"
| "js_add (Fin a) (Fin b) = Fin (a + b)"
| "js_add PInf NInf = NaN"
| "js_add NInf PInf = NaN"
| "js_add PInf _ = PInf"
| "js_add _ PInf = PInf"
| "js_add NInf _ = NInf"
| "js_add _ NInf = NInf"

definition js_sub :: "jsnum \<Rightarrow> jsnum \<Rightarrow> jsnum" where
  "js_sub a b = js_add a (js_neg b)"

text \<open>The sign of a number that is not NaN: \<open>-1\<close>, \<open>0\<close> or \<open>1\<close>.\<close>

fun js_sign :: "jsnum \<Rightarrow> int" where
  "js_sign (Fin a) = (if a < 0 then - 1 else if a = 0 then 0 else 1)"
| "js_sign PInf = 1"
| "js_sign NInf = - 1"
| "js_sign NaN = 0"

fun js_mul :: "jsnum \<Rightarrow> jsnum \<Rightarrow> jsnum" where
  "js_mul NaN _ = NaN"
| "js_mul _ NaN = NaN"
| "js_mul (Fin a) (Fin b) = Fin (a * b)"
| "js_mul a b =
     (if js_sign a * js_sign b = 0 then NaN
      else if js_sign a * js_sign b > 0 then PInf else NInf)"

text \<open>
  Division; the sketches divide by an array length only, a non-negative integer, so a
  zero divisor is \<open>+0\<close>.
\<close>

fun js_div :: "jsnum \<Rightarrow> jsnum \<Rightarrow> jsnum" where
  "js_div NaN _ = NaN"
| "js_div _ NaN = NaN"
| "js_div (Fin a) (Fin b) =
     (if b \<noteq> 0 then Fin (a / b)
      else if a = 0 then NaN else if a > 0 then PInf else NInf)"
| "js_div (Fin a) _ = Fin 0"
| "js_div PInf (Fin b) = (if b \<ge> 0 then PInf else NInf)"
| "js_div NInf (Fin b) = (if b \<ge> 0 then NInf else PInf)"
| "js_div _ _ = NaN"

fun Math_sqrt :: "jsnum \<Rightarrow> jsnum" where
  "Math_sqrt (Fin a) = (if a < 0 then NaN else Fin (sqrt a))"
| "Math_sqrt PInf = PInf"
| "Math_sqrt NInf = NaN"
| "Math_sqrt NaN = NaN"

text \<open>\<open>Math.pow(v, 2)\<close>.\<close>

fun Math_pow2 :: "jsnum \<Rightarrow> jsnum" where
  "Math_pow2 (Fin a) = Fin (a\<^sup>2)"
| "Math_pow2 PInf = PInf"
| "Math_pow2 NInf = PInf"
| "Math_pow2 NaN = NaN"

text \<open>The comparisons \<open><\<close>, \<open>>\<close>, \<open>>=\<close>: false whenever an operand is NaN.\<close>

fun js_lt :: "jsnum \<Rightarrow> jsnum \<Rightarrow> bool" where
  "js_lt NaN _ = False"
| "js_lt _ NaN = False"
| "js_lt (Fin a) (Fin b) = (a < b)"
| "js_lt _ NInf = False"
| "js_lt NInf _ = True"
| "js_lt PInf _ = False"
| "js_lt _ PInf = True"

definition js_gt :: "jsnum \<Rightarrow> jsnum \<Rightarrow> bool" where
  "js_gt a b = js_lt b a"

definition js_ge :: "jsnum \<Rightarrow> jsnum \<Rightarrow> bool" where
  "js_ge a b = (\<not> isNaN a \<and> \<not> isNaN b \<and> \<not> js_lt a b)"

definition js_le :: "jsnum \<Rightarrow> jsnum \<Rightarrow> bool" where
  "js_le a b = js_ge b a"

text \<open>\<open>Math.max\<close> of two numbers: NaN if either is NaN.\<close>

definition Math_max :: "jsnum \<Rightarrow> jsnum \<Rightarrow> jsnum" where
  "Math_max a b = (if isNaN a \<or> isNaN b then NaN else if js_lt a b then b else a)"

text \<open>
  Reading an array of numbers at an index: \<open>None\<close> is JavaScript's \<open>undefined\<close>, the
  result of a read past the end, and in a numeric context \<open>undefined\<close> converts to NaN.
\<close>

definition js_index :: "jsnum list \<Rightarrow> int \<Rightarrow> jsnum option" where
  "js_index xs i = (if 0 \<le> i \<and> nat i < length xs then Some (xs ! nat i) else None)"

definition to_number :: "jsnum option \<Rightarrow> jsnum" where
  "to_number v = (case v of None \<Rightarrow> NaN | Some a \<Rightarrow> a)"

section \<open>The stream processor: class DataStream of sketch.js\<close>

text \<open>
  The fields of the class. \<open>stream_id\<close> is the field \<open>id\<close>, and \<open>smoothedX\<close>,
  \<open>smoothedY\<close>, \<open>smoothedZ\<close> are the fields \<open>x\<close>, \<open>y\<close>, \<open>z\<close> (the smoothed display
  values). Times are milliseconds, as \<open>Date.now()\<close> returns them; the clock is read once
  for each call and passed as \<open>now\<close>.
\<close>

record DataStream =
  stream_id :: nat
  color :: "nat list"
  lastUpdate :: int
  smoothedX :: jsnum
  smoothedY :: jsnum
  smoothedZ :: jsnum
  rawX :: jsnum
  rawY :: jsnum
  rawZ :: jsnum
  calibrating :: bool
  calibrationData :: "(jsnum \<times> jsnum \<times> jsnum) list"
  baseX :: jsnum
  baseY :: jsnum
  baseZ :: jsnum
  deadzone :: jsnum
  calibrationNoise :: jsnum
  motionThresholds :: "jsnum list"
  motion :: nat
  distance :: jsnum
  calibrationQuality :: string
  lastMotionTime :: int

definition STREAM_COLORS :: "nat list list" where
  "STREAM_COLORS =
     [[100, 150, 255], [100, 255, 150], [255, 180, 100],
      [200, 150, 255], [255, 150, 180], [255, 230, 100]]"

definition new_DataStream :: "nat \<Rightarrow> int \<Rightarrow> DataStream" where
  "new_DataStream i now =
     \<lparr> stream_id = i,
       color = STREAM_COLORS ! ((i - 1) mod length STREAM_COLORS),
       lastUpdate = now,
       smoothedX = Fin 0, smoothedY = Fin 0, smoothedZ = Fin 0,
       rawX = Fin 0, rawY = Fin 0, rawZ = Fin 0,
       calibrating = True,
       calibrationData = [],
       baseX = Fin 0, baseY = Fin 0, baseZ = Fin 0,
       deadzone = Fin 250,
       calibrationNoise = Fin 0,
       motionThresholds = [Fin 200, Fin 500, Fin 1000, Fin 2000],
       motion = 0,
       distance = Fin 0,
       calibrationQuality = ''UNKNOWN'',
       lastMotionTime = now \<rparr>"

definition startCalibration :: "DataStream \<Rightarrow> DataStream" where
  "startCalibration s = s\<lparr>calibrating := True, calibrationData := []\<rparr>"

text \<open>The summation loops of \<open>finishCalibration\<close>, one accumulator for each axis.\<close>

definition sum_axis :: "jsnum list \<Rightarrow> jsnum" where
  "sum_axis vs = foldl js_add (Fin 0) vs"

definition var_axis :: "jsnum \<Rightarrow> jsnum list \<Rightarrow> jsnum" where
  "var_axis b vs = foldl (\<lambda>acc v. js_add acc (Math_pow2 (js_sub v b))) (Fin 0) vs"

definition quality_of :: "jsnum \<Rightarrow> string" where
  "quality_of noise =
     (if js_gt noise (Fin 500) then ''POOR - Device was moving''
      else if js_gt noise (Fin 250) then ''FAIR - Some movement detected''
      else ''GOOD - Device was steady'')"

definition thresholds_of :: "jsnum \<Rightarrow> jsnum list" where
  "thresholds_of baseThreshold =
     [baseThreshold,
      js_mul baseThreshold (Fin 1.8),
      js_mul baseThreshold (Fin 3.5),
      js_mul baseThreshold (Fin 6),
      js_mul baseThreshold (Fin 10),
      js_mul baseThreshold (Fin 16)]"

definition finishCalibration :: "DataStream \<Rightarrow> DataStream" where
  "finishCalibration s =
     (let n = Fin (real (length (calibrationData s)));
          xs = map fst (calibrationData s);
          ys = map (fst \<circ> snd) (calibrationData s);
          zs = map (snd \<circ> snd) (calibrationData s);
          bx = js_div (sum_axis xs) n;
          by = js_div (sum_axis ys) n;
          bz = js_div (sum_axis zs) n;
          stdX = Math_sqrt (js_div (var_axis bx xs) n);
          stdY = Math_sqrt (js_div (var_axis by ys) n);
          stdZ = Math_sqrt (js_div (var_axis bz zs) n);
          noise = Math_sqrt (js_add (js_add (js_mul stdX stdX) (js_mul stdY stdY))
                                    (js_mul stdZ stdZ));
          baseThreshold = Math_max (Fin 300) (js_mul noise (Fin 4))
      in s\<lparr> baseX := bx, baseY := by, baseZ := bz,
             calibrationNoise := noise,
             calibrationQuality := quality_of noise,
             deadzone := Math_max (Fin 250) (js_mul noise (Fin 2.5)),
             motionThresholds := thresholds_of baseThreshold,
             smoothedX := bx, smoothedY := by, smoothedZ := bz,
             calibrating := False \<rparr>)"

text \<open>
  The classification half of \<open>update\<close>, for a stream that is not calibrating.
  \<open>euclideanDistance\<close> is computed from the raw sample and the baseline, the deadzone
  turns a small distance into 0, and \<open>scan_levels\<close> is the loop
  \<open>for (level = 5; level >= 0; level--)\<close>: it starts from the current motion level and
  overwrites it at the first (highest) threshold that the distance reaches.
\<close>

definition euclideanDistance :: "DataStream \<Rightarrow> jsnum \<Rightarrow> jsnum \<Rightarrow> jsnum \<Rightarrow> jsnum" where
  "euclideanDistance s x y z =
     (let dx = js_sub x (baseX s); dy = js_sub y (baseY s); dz = js_sub z (baseZ s)
      in Math_sqrt (js_add (js_add (js_mul dx dx) (js_mul dy dy)) (js_mul dz dz)))"

definition effectiveDistance :: "DataStream \<Rightarrow> jsnum \<Rightarrow> jsnum \<Rightarrow> jsnum \<Rightarrow> jsnum" where
  "effectiveDistance s x y z =
     (let d = euclideanDistance s x y z in if js_lt d (deadzone s) then Fin 0 else d)"

fun scan_levels :: "jsnum list \<Rightarrow> jsnum \<Rightarrow> nat \<Rightarrow> nat \<Rightarrow> nat" where
  "scan_levels thr eff cur 0 =
     (if js_ge eff (to_number (js_index thr 0)) then 1 else cur)"
| "scan_levels thr eff cur (Suc level) =
     (if js_ge eff (to_number (js_index thr (int (Suc level)))) then Suc level + 1
      else scan_levels thr eff cur level)"

definition candidateLevel :: "DataStream \<Rightarrow> jsnum \<Rightarrow> nat" where
  "candidateLevel s eff = scan_levels (motionThresholds s) eff (motion s) 5"

text \<open>The bound of the hysteresis test: \<open>motionThresholds[motion - 1] - hysteresis\<close>.\<close>

definition hysteresis :: "DataStream \<Rightarrow> jsnum" where
  "hysteresis s = js_mul (to_number (js_index (motionThresholds s) 0)) (Fin 0.2)"

definition decrease_bound :: "DataStream \<Rightarrow> jsnum" where
  "decrease_bound s =
     js_sub (to_number (js_index (motionThresholds s) (int (motion s) - 1))) (hysteresis s)"

definition after_hysteresis :: "DataStream \<Rightarrow> jsnum \<Rightarrow> nat" where
  "after_hysteresis s eff =
     (let newMotion = candidateLevel s eff
      in if newMotion < motion s then
           (let thresholdIndex = int (motion s) - 1
            in if thresholdIndex \<ge> 0 \<and> js_gt eff (decrease_bound s)
               then motion s else newMotion)
         else newMotion)"

definition after_stuck_check :: "DataStream \<Rightarrow> jsnum \<Rightarrow> int \<Rightarrow> nat" where
  "after_stuck_check s eff now =
     (let newMotion = after_hysteresis s eff
      in if motion s > 0 \<and> newMotion = motion s \<and> js_lt eff (deadzone s)
         then (if now - lastMotionTime s > 2000 then 0 else newMotion)
         else newMotion)"

definition smooth :: "jsnum \<Rightarrow> jsnum \<Rightarrow> jsnum" where
  "smooth cur v = js_add cur (js_mul (js_sub v cur) (Fin 0.15))"

definition update :: "DataStream \<Rightarrow> jsnum \<Rightarrow> jsnum \<Rightarrow> jsnum \<Rightarrow> int \<Rightarrow> DataStream" where
  "update s x y z now =
     (if isNaN x \<or> isNaN y \<or> isNaN z then s
      else
        let s1 = s\<lparr>rawX := x, rawY := y, rawZ := z\<rparr>
        in if calibrating s1 then
             (let s2 = s1\<lparr>calibrationData := calibrationData s1 @ [(x, y, z)],
                         smoothedX := x, smoothedY := y, smoothedZ := z\<rparr>;
                  s3 = (if length (calibrationData s2) \<ge> 60
                        then finishCalibration s2 else s2)
              in s3\<lparr>lastUpdate := now\<rparr>)
           else
             (let s2 = s1\<lparr>smoothedX := smooth (smoothedX s1) x,
                         smoothedY := smooth (smoothedY s1) y,
                         smoothedZ := smooth (smoothedZ s1) z\<rparr>;
                  s3 = s2\<lparr>distance := euclideanDistance s2 x y z\<rparr>;
                  eff = effectiveDistance s3 x y z;
                  newMotion = after_stuck_check s3 eff now;
                  s4 = (if newMotion \<noteq> motion s3
                        then s3\<lparr>lastMotionTime := now\<rparr> else s3)
              in s4\<lparr>motion := min 5 newMotion, lastUpdate := now\<rparr>))"

text \<open>
  A sample as it reaches \<open>update\<close>, with the time of the call, and a run of the
  processor over a sequence of samples. A sample is valid when it passes the guard at
  the head of \<open>update\<close>.
\<close>

type_synonym sample = "jsnum \<times> jsnum \<times> jsnum \<times> int"

fun valid_sample :: "sample \<Rightarrow> bool" where
  "valid_sample (x, y, z, now) = (\<not> isNaN x \<and> \<not> isNaN y \<and> \<not> isNaN z)"

fun coords :: "sample \<Rightarrow> jsnum \<times> jsnum \<times> jsnum" where
  "coords (x, y, z, now) = (x, y, z)"

fun ingest :: "DataStream \<Rightarrow> sample \<Rightarrow> DataStream" where
  "ingest s (x, y, z, now) = update s x y z now"

definition run :: "DataStream \<Rightarrow> sample list \<Rightarrow> DataStream" where
  "run s ss = foldl ingest s ss"

text \<open>
  The stream states the sketch can produce: a stream is constructed, and from then on
  it is only touched by \<open>update\<close> (from \<open>parseMessage\<close>) and by \<open>startCalibration\<close>
  (from \<open>keyPressed\<close>).
\<close>

inductive reachable :: "DataStream \<Rightarrow> bool" where
  constructed: "reachable (new_DataStream i now)"
| updated: "reachable s \<Longrightarrow> reachable (update s x y z now)"
| recalibrated: "reachable s \<Longrightarrow> reachable (startCalibration s)"

text \<open>What a calibration leaves in the stream.\<close>

definition calibration_result ::
  "DataStream \<Rightarrow> (jsnum \<times> jsnum \<times> jsnum) \<times> jsnum \<times> string \<times> jsnum \<times> jsnum list" where
  "calibration_result s =
     ((baseX s, baseY s, baseZ s), calibrationNoise s, calibrationQuality s,
      deadzone s, motionThresholds s)"

text \<open>
  A sample that keeps the stream still: it is valid and its effective distance is below
  the deadzone of the stream.
\<close>

fun still_sample :: "DataStream \<Rightarrow> sample \<Rightarrow> bool" where
  "still_sample s (x, y, z, now) =
     (valid_sample (x, y, z, now) \<and> js_lt (effectiveDistance s x y z) (deadzone s))"

text \<open>The time at which a sample is ingested.\<close>

definition sample_time :: "sample \<Rightarrow> int" where
  "sample_time a = (case a of (x, y, z, now) \<Rightarrow> now)"

text \<open>
  The two branches of \<open>update\<close> past its guard, each as one record update. For a
  calibrating stream (lines 71 to 80): the raw values are stored, the sample is appended
  to the buffer and the smoothed values follow it; \<open>finishCalibration\<close> and the time
  stamp come after. For a ready stream (lines 71 to 73 and 90 to 146): the raw values,
  the smoothing, the distance, the time of the last change, the level and the time
  stamp.
\<close>

definition collect_branch :: "DataStream \<Rightarrow> sample \<Rightarrow> DataStream" where
  "collect_branch s a =
     (case a of (x, y, z, now) \<Rightarrow>
        s\<lparr>rawX := x, rawY := y, rawZ := z,
          calibrationData := calibrationData s @ [(x, y, z)],
          smoothedX := x, smoothedY := y, smoothedZ := z\<rparr>)"

definition ready_branch :: "DataStream \<Rightarrow> sample \<Rightarrow> DataStream" where
  "ready_branch s a =
     (case a of (x, y, z, now) \<Rightarrow>
        s\<lparr>rawX := x, rawY := y, rawZ := z,
          smoothedX := smooth (smoothedX s) x,
          smoothedY := smooth (smoothedY s) y,
          smoothedZ := smooth (smoothedZ s) z,
          distance := euclideanDistance s x y z,
          lastMotionTime :=
            (if after_stuck_check s (effectiveDistance s x y z) now \<noteq> motion s
             then now else lastMotionTime s),
          motion := min 5 (after_stuck_check s (effectiveDistance s x y z) now),
          lastUpdate := now\<rparr>)"

section \<open>The registry and the message parser: parseMessage of sketch.js\<close>

text \<open>
  A message is a list of 8-bit characters. \<open>is_space\<close> is the class \<open>\s\<close> of the regular
  expressions on that range, and \<open>axis_char\<close> is the class \<open>[^,\s]\<close>.
\<close>

definition is_space :: "char \<Rightarrow> bool" where
  "is_space c = (c \<in> {CHR 0x09, CHR 0x0A, CHR 0x0B, CHR 0x0C, CHR 0x0D, CHR 0x20, CHR 0xA0})"

definition axis_char :: "char \<Rightarrow> bool" where
  "axis_char c = (c \<noteq> CHR '','' \<and> \<not> is_space c)"

text \<open>\<open>parseInt\<close> of the group \<open>([1-6])\<close>; \<open>None\<close> when the character is not in the class.\<close>

definition id_digit :: "char \<Rightarrow> nat option" where
  "id_digit c = map_of (zip ''123456'' [1, 2, 3, 4, 5, 6]) c"

text \<open>\<open>msg.match(/^S([1-6])$/)\<close> and \<open>msg.match(/^m([1-6])/)\<close>, giving the parsed id.\<close>

definition match_registration :: "string \<Rightarrow> nat option" where
  "match_registration msg =
     (case msg of
        [c, d] \<Rightarrow> (if c = CHR ''S'' then id_digit d else None)
      | _ \<Rightarrow> None)"

definition match_data :: "string \<Rightarrow> nat option" where
  "match_data msg =
     (case msg of
        c # d # rest \<Rightarrow> (if c = CHR ''m'' then id_digit d else None)
      | _ \<Rightarrow> None)"

text \<open>
  \<open>msg.match(/k=([^,\s]+)/)\<close> for an axis letter \<open>k\<close>: the leftmost place where \<open>k=\<close> is
  followed by at least one character of the class, and the longest run of such
  characters there.
\<close>

fun match_axis :: "char \<Rightarrow> string \<Rightarrow> string option" where
  "match_axis k [] = None"
| "match_axis k (c # cs) =
     (if c = k \<and> take 1 cs = ''='' \<and> takeWhile axis_char (drop 1 cs) \<noteq> []
      then Some (takeWhile axis_char (drop 1 cs))
      else match_axis k cs)"

text \<open>The globals of sketch.js that \<open>parseMessage\<close> writes.\<close>

record sketch =
  streamData :: "nat \<rightharpoonup> DataStream"
  messageCount :: nat

text \<open>
  \<open>parseMessage\<close>. The host's \<open>parseFloat\<close> is a parameter: any function from the
  captured text to a number.
\<close>

definition parseMessage :: "(string \<Rightarrow> jsnum) \<Rightarrow> int \<Rightarrow> string \<Rightarrow> sketch \<Rightarrow> sketch" where
  "parseMessage parseFloat now msg g =
     (let g1 = g\<lparr>messageCount := messageCount g + 1\<rparr>
      in case match_registration msg of
           Some i \<Rightarrow>
             (if streamData g1 i = None
              then g1\<lparr>streamData := (streamData g1)(i \<mapsto> new_DataStream i now)\<rparr>
              else g1)
         | None \<Rightarrow>
             (case match_data msg of
                None \<Rightarrow> g1
              | Some i \<Rightarrow>
                  (let ds = (case streamData g1 i of
                               None \<Rightarrow> new_DataStream i now | Some d \<Rightarrow> d)
                   in case (match_axis CHR ''x'' msg, match_axis CHR ''y'' msg,
                            match_axis CHR ''z'' msg) of
                        (Some xm, Some ym, Some zm) \<Rightarrow>
                          g1\<lparr>streamData := (streamData g1)
                               (i \<mapsto> update ds (parseFloat xm) (parseFloat ym)
                                                (parseFloat zm) now)\<rparr>
                      | _ \<Rightarrow> g1\<lparr>streamData := (streamData g1)(i \<mapsto> ds)\<rparr>)))"

section \<open>The ingestion scheduler: draw and clearSerialBuffer of the graph sketch\<close>



















section \<open>Two concrete streams\<close>

text \<open>
  A stream calibrated on sixty samples of a device at rest, and the same stream after
  one sample 1000 mg away from the baseline, which raises it to motion level 2.
\<close>

definition rest_sample :: sample where
  "rest_sample = (Fin 0, Fin 0, Fin 0, 0)"

definition calibrated_at_rest :: DataStream where
  "calibrated_at_rest = run (new_DataStream 1 0) (replicate 60 rest_sample)"

definition moving_stream :: DataStream where
  "moving_stream = update calibrated_at_rest (Fin 1000) (Fin 0) (Fin 0) 100"


section \<open>Runs of the stream processor\<close>

lemma run_Nil: "run s [] = s" by (simp add: run_def)
lemma run_Cons: "run s (a # ss) = run (ingest s a) ss" by (simp add: run_def)
lemma run_append: "run s (ss @ ts) = run (run s ss) ts" by (simp add: run_def)
lemma run_snoc: "run s (ss @ [a]) = ingest (run s ss) a" by (simp add: run_def)

lemma ingest_collect:
  assumes "calibrating s" "valid_sample a" "Suc (length (calibrationData s)) < 60"
  shows "ingest s a = s\<lparr>rawX := fst (coords a), rawY := fst (snd (coords a)), rawZ := snd (snd (coords a)),
            calibrationData := calibrationData s @ [coords a],
            smoothedX := fst (coords a), smoothedY := fst (snd (coords a)), smoothedZ := snd (snd (coords a)),
            lastUpdate := snd (snd (snd a))\<rparr>"
  using assms by (cases a) (simp add: update_def Let_def)

lemma ingest_finish:
  assumes "calibrating s" "valid_sample a" "Suc (length (calibrationData s)) \<ge> 60"
  shows "ingest s a = (finishCalibration (s\<lparr>rawX := fst (coords a), rawY := fst (snd (coords a)), rawZ := snd (snd (coords a)),
            calibrationData := calibrationData s @ [coords a],
            smoothedX := fst (coords a), smoothedY := fst (snd (coords a)), smoothedZ := snd (snd (coords a))\<rparr>))
            \<lparr>lastUpdate := snd (snd (snd a))\<rparr>"
  using assms by (cases a) (simp add: update_def Let_def)

lemma finishCalibration_frame:
  "calibrating (finishCalibration s) = False"
  "calibrationData (finishCalibration s) = calibrationData s"
  "motion (finishCalibration s) = motion s"
  "lastMotionTime (finishCalibration s) = lastMotionTime s"
  "length (motionThresholds (finishCalibration s)) = 6"
  by (simp_all add: finishCalibration_def Let_def thresholds_of_def)

lemma ingest_ready_frame:
  assumes "\<not> calibrating s"
  shows "calibrating (ingest s a) = False"
    and "calibrationData (ingest s a) = calibrationData s"
    and "calibration_result (ingest s a) = calibration_result s"
    and "motion (ingest s a) \<le> 5 \<or> ingest s a = s"
  using assms by (cases a; simp add: update_def Let_def calibration_result_def)+

lemma run_ready_frame:
  assumes "\<not> calibrating s"
  shows "calibrating (run s ss) = False \<and> calibrationData (run s ss) = calibrationData s
         \<and> calibration_result (run s ss) = calibration_result s"
  using assms
proof (induction ss arbitrary: s)
  case Nil
  then show ?case by (simp add: run_Nil)
next
  case (Cons a ss)
  from Cons.prems have "\<not> calibrating (ingest s a)" by (simp add: ingest_ready_frame)
  from Cons.IH [OF this] Cons.prems show ?case
    by (simp add: run_Cons ingest_ready_frame)
qed

lemma run_collect:
  assumes "calibrating s" "list_all valid_sample ss"
    "length (calibrationData s) + length ss < 60" "ss \<noteq> []"
  shows "run s ss = s\<lparr>rawX := fst (coords (last ss)), rawY := fst (snd (coords (last ss))),
            rawZ := snd (snd (coords (last ss))),
            calibrationData := calibrationData s @ map coords ss,
            smoothedX := fst (coords (last ss)), smoothedY := fst (snd (coords (last ss))),
            smoothedZ := snd (snd (coords (last ss))),
            lastUpdate := snd (snd (snd (last ss)))\<rparr>"
  using assms
proof (induction ss rule: rev_induct)
  case Nil
  then show ?case by simp
next
  case (snoc a ss)
  show ?case
  proof (cases "ss = []")
    case True
    with snoc.prems show ?thesis
      by (simp add: run_Cons run_Nil ingest_collect)
  next
    case False
    with snoc have IH: "run s ss = s\<lparr>rawX := fst (coords (last ss)), rawY := fst (snd (coords (last ss))),
            rawZ := snd (snd (coords (last ss))),
            calibrationData := calibrationData s @ map coords ss,
            smoothedX := fst (coords (last ss)), smoothedY := fst (snd (coords (last ss))),
            smoothedZ := snd (snd (coords (last ss))),
            lastUpdate := snd (snd (snd (last ss)))\<rparr>"
      by simp
    have c: "calibrating (run s ss)" using IH snoc.prems(1) by simp
    have l: "Suc (length (calibrationData (run s ss))) < 60" using IH snoc.prems(3) by simp
    have v: "valid_sample a" using snoc.prems(2) by simp
    show ?thesis
      unfolding run_snoc ingest_collect [OF c v l]
      by (simp add: IH)
  qed
qed

lemma run_collect_fields:
  assumes "calibrating s" "list_all valid_sample ss"
    "length (calibrationData s) + length ss < 60"
  shows "calibrating (run s ss)"
    and "calibrationData (run s ss) = calibrationData s @ map coords ss"
    and "motion (run s ss) = motion s"
    and "lastMotionTime (run s ss) = lastMotionTime s"
    and "calibration_result (run s ss) = calibration_result s"
  using assms run_collect [OF assms]
  by (cases "ss = []"; simp add: run_Nil calibration_result_def)+

text \<open>The state in which the sixtieth sample is ingested, and the state it leaves.\<close>

lemma run_sixty:
  assumes "calibrating s" "calibrationData s = []" "list_all valid_sample ss" "length ss = 60"
  shows "\<not> calibrating (run s ss)"
    and "calibrationData (run s ss) = map coords ss"
    and "motion (run s ss) = motion s"
    and "calibration_result (run s ss)
         = calibration_result (finishCalibration (s\<lparr>calibrationData := map coords ss\<rparr>))"
proof -
  from assms(4) obtain ts a where ss: "ss = ts @ [a]" and lt: "length ts = 59"
    by (cases ss rule: rev_cases) auto
  have v: "list_all valid_sample ts" "valid_sample a" using assms(3) ss by simp_all
  have pre: "length (calibrationData s) + length ts < 60" using assms(2) lt by simp
  note f = run_collect_fields [OF assms(1) v(1) pre]
  have l: "Suc (length (calibrationData (run s ts))) \<ge> 60" using f(2) assms(2) lt by simp
  note fin = ingest_finish [OF f(1) v(2) l]
  show "\<not> calibrating (run s ss)"
    unfolding ss run_snoc fin by (simp add: finishCalibration_frame)
  show "calibrationData (run s ss) = map coords ss"
    unfolding ss run_snoc fin by (simp add: finishCalibration_frame f(2) assms(2))
  show "motion (run s ss) = motion s"
    unfolding ss run_snoc fin by (simp add: finishCalibration_frame f(3))
  show "calibration_result (run s ss)
         = calibration_result (finishCalibration (s\<lparr>calibrationData := map coords ss\<rparr>))"
    unfolding ss run_snoc fin
    by (simp add: calibration_result_def finishCalibration_def Let_def f(2) assms(2))
qed

lemma foldl_add_rest: "foldl js_add (Fin a) (replicate n (Fin 0)) = Fin a"
  by (induction n) simp_all

lemma foldl_var_rest:
  "foldl (\<lambda>acc v. js_add acc (Math_pow2 (js_sub v (Fin 0)))) (Fin a) (replicate n (Fin 0)) = Fin a"
  by (induction n) (simp_all add: js_sub_def)

lemma replicate_snoc: "replicate (Suc n) x = replicate n x @ [x]"
  by (simp add: replicate_append_same)

lemma valid_rest: "list_all valid_sample (replicate n rest_sample)"
  by (simp add: list_all_iff rest_sample_def)

lemma calibrated_at_rest_eq:
  "calibrated_at_rest =
     \<lparr> stream_id = 1, color = [100, 150, 255], lastUpdate = 0,
       smoothedX = Fin 0, smoothedY = Fin 0, smoothedZ = Fin 0,
       rawX = Fin 0, rawY = Fin 0, rawZ = Fin 0,
       calibrating = False,
       calibrationData = replicate 60 (Fin 0, Fin 0, Fin 0),
       baseX = Fin 0, baseY = Fin 0, baseZ = Fin 0,
       deadzone = Fin 250, calibrationNoise = Fin 0,
       motionThresholds = [Fin 300, Fin 540, Fin 1050, Fin 1800, Fin 3000, Fin 4800],
       motion = 0, distance = Fin 0,
       calibrationQuality = ''GOOD - Device was steady'',
       lastMotionTime = 0 \<rparr>"
proof -
  let ?n = "new_DataStream 1 0"
  have c: "calibrating ?n" by (simp add: new_DataStream_def)
  have l: "length (calibrationData ?n) + length (replicate 59 rest_sample) < 60"
    by (simp add: new_DataStream_def)
  have ne: "replicate 59 rest_sample \<noteq> []" by simp
  note r = run_collect [OF c valid_rest l ne]
  have c': "calibrating (run ?n (replicate 59 rest_sample))" unfolding r using c by simp
  have l': "Suc (length (calibrationData (run ?n (replicate 59 rest_sample)))) \<ge> 60"
    unfolding r by (simp add: new_DataStream_def)
  have v: "valid_sample rest_sample" by (simp add: rest_sample_def)
  have split: "replicate 60 rest_sample = replicate 59 rest_sample @ [rest_sample]"
    using replicate_snoc [of 59 rest_sample] by simp
  have data: "replicate 59 (Fin 0, Fin 0, Fin 0) @ [(Fin 0, Fin 0, Fin 0)]
              = replicate 60 (Fin 0, Fin 0, Fin 0)"
    using replicate_snoc [of 59 "(Fin 0, Fin 0, Fin 0)"] by simp
  have "calibrated_at_rest = ingest (run ?n (replicate 59 rest_sample)) rest_sample"
    unfolding calibrated_at_rest_def split run_snoc ..
  then show ?thesis
    unfolding ingest_finish [OF c' v l']
    unfolding r
    by (simp add: finishCalibration_def Let_def new_DataStream_def rest_sample_def
        STREAM_COLORS_def sum_axis_def var_axis_def foldl_add_rest foldl_var_rest data
        Math_max_def thresholds_of_def quality_of_def js_gt_def comp_def)
qed

lemma scan_levels_5:
  "scan_levels thr eff cur 5 =
     (if js_ge eff (to_number (js_index thr 5)) then 6
      else if js_ge eff (to_number (js_index thr 4)) then 5
      else if js_ge eff (to_number (js_index thr 3)) then 4
      else if js_ge eff (to_number (js_index thr 2)) then 3
      else if js_ge eff (to_number (js_index thr 1)) then 2
      else if js_ge eff (to_number (js_index thr 0)) then 1
      else cur)"
proof -
  have "n = Suc (Suc (Suc (Suc (Suc 0)))) \<Longrightarrow> scan_levels thr eff cur n =
     (if js_ge eff (to_number (js_index thr 5)) then 6
      else if js_ge eff (to_number (js_index thr 4)) then 5
      else if js_ge eff (to_number (js_index thr 3)) then 4
      else if js_ge eff (to_number (js_index thr 2)) then 3
      else if js_ge eff (to_number (js_index thr 1)) then 2
      else if js_ge eff (to_number (js_index thr 0)) then 1
      else cur)" for n
    by simp
  from this [of 5] show ?thesis by simp
qed

lemma update_ready:
  assumes "\<not> calibrating s" "\<not> isNaN x" "\<not> isNaN y" "\<not> isNaN z"
  shows "update s x y z now =
     s\<lparr>rawX := x, rawY := y, rawZ := z,
       smoothedX := smooth (smoothedX s) x,
       smoothedY := smooth (smoothedY s) y,
       smoothedZ := smooth (smoothedZ s) z,
       distance := euclideanDistance s x y z,
       lastMotionTime :=
         (if after_stuck_check s (effectiveDistance s x y z) now \<noteq> motion s
          then now else lastMotionTime s),
       motion := min 5 (after_stuck_check s (effectiveDistance s x y z) now),
       lastUpdate := now\<rparr>"
proof -
  let ?s3 = "s\<lparr>rawX := x, rawY := y, rawZ := z,
       smoothedX := smooth (smoothedX s) x,
       smoothedY := smooth (smoothedY s) y,
       smoothedZ := smooth (smoothedZ s) z,
       distance := euclideanDistance s x y z\<rparr>"
  have d: "euclideanDistance (s\<lparr>rawX := x, rawY := y, rawZ := z,
       smoothedX := smooth (smoothedX s) x,
       smoothedY := smooth (smoothedY s) y,
       smoothedZ := smooth (smoothedZ s) z\<rparr>) x y z = euclideanDistance s x y z"
    by (simp add: euclideanDistance_def Let_def)
  have e: "effectiveDistance ?s3 x y z = effectiveDistance s x y z"
    by (simp add: effectiveDistance_def euclideanDistance_def Let_def)
  have c: "after_stuck_check ?s3 eff now = after_stuck_check s eff now" for eff
    by (simp add: after_stuck_check_def after_hysteresis_def candidateLevel_def
        decrease_bound_def hysteresis_def Let_def)
  show ?thesis
    using assms by (simp add: update_def Let_def d e c)
qed

lemma distance_on_x_axis:
  assumes "baseX s = Fin 0" "baseY s = Fin 0" "baseZ s = Fin 0"
  shows "euclideanDistance s (Fin a) (Fin 0) (Fin 0) = Fin \<bar>a\<bar>"
  using assms by (simp add: euclideanDistance_def Let_def js_sub_def)

lemma rest_fields:
  "calibrating calibrated_at_rest = False"
  "baseX calibrated_at_rest = Fin 0"
  "baseY calibrated_at_rest = Fin 0"
  "baseZ calibrated_at_rest = Fin 0"
  "deadzone calibrated_at_rest = Fin 250"
  "motionThresholds calibrated_at_rest
     = [Fin 300, Fin 540, Fin 1050, Fin 1800, Fin 3000, Fin 4800]"
  "motion calibrated_at_rest = 0"
  "lastMotionTime calibrated_at_rest = 0"
  by (simp_all add: calibrated_at_rest_eq)

lemma rest_push:
  "effectiveDistance calibrated_at_rest (Fin 1000) (Fin 0) (Fin 0) = Fin 1000"
  "after_stuck_check calibrated_at_rest (Fin 1000) 100 = 2"
proof -
  show "effectiveDistance calibrated_at_rest (Fin 1000) (Fin 0) (Fin 0) = Fin 1000"
    by (simp add: effectiveDistance_def Let_def distance_on_x_axis rest_fields)
  have "candidateLevel calibrated_at_rest (Fin 1000) = 2"
    by (simp add: candidateLevel_def scan_levels_5 rest_fields js_index_def to_number_def
        js_ge_def)
  then show "after_stuck_check calibrated_at_rest (Fin 1000) 100 = 2"
    by (simp add: after_stuck_check_def after_hysteresis_def Let_def rest_fields)
qed

lemma moving_stream_eq:
  "moving_stream =
     \<lparr> stream_id = 1, color = [100, 150, 255], lastUpdate = 100,
       smoothedX = Fin 150, smoothedY = Fin 0, smoothedZ = Fin 0,
       rawX = Fin 1000, rawY = Fin 0, rawZ = Fin 0,
       calibrating = False,
       calibrationData = replicate 60 (Fin 0, Fin 0, Fin 0),
       baseX = Fin 0, baseY = Fin 0, baseZ = Fin 0,
       deadzone = Fin 250, calibrationNoise = Fin 0,
       motionThresholds = [Fin 300, Fin 540, Fin 1050, Fin 1800, Fin 3000, Fin 4800],
       motion = 2, distance = Fin 1000,
       calibrationQuality = ''GOOD - Device was steady'',
       lastMotionTime = 100 \<rparr>"
proof -
  have "moving_stream =
     calibrated_at_rest\<lparr>rawX := Fin 1000, rawY := Fin 0, rawZ := Fin 0,
       smoothedX := smooth (smoothedX calibrated_at_rest) (Fin 1000),
       smoothedY := smooth (smoothedY calibrated_at_rest) (Fin 0),
       smoothedZ := smooth (smoothedZ calibrated_at_rest) (Fin 0),
       distance := Fin 1000, lastMotionTime := 100, motion := 2, lastUpdate := 100\<rparr>"
    unfolding moving_stream_def
    by (subst update_ready) (simp_all add: rest_fields rest_push distance_on_x_axis)
  then show ?thesis
    by (simp add: calibrated_at_rest_eq smooth_def js_sub_def)
qed

lemma reachable_run: "reachable s \<Longrightarrow> reachable (run s ss)"
proof (induction ss arbitrary: s)
  case Nil
  then show ?case by (simp add: run_Nil)
next
  case (Cons a ss)
  obtain x y z t where a: "a = (x, y, z, t)" by (cases a) auto
  from Cons.prems have "reachable (ingest s a)" unfolding a by (simp add: reachable.updated)
  from Cons.IH [OF this] show ?case by (simp add: run_Cons)
qed

lemma reachable_rest: "reachable calibrated_at_rest"
  unfolding calibrated_at_rest_def by (rule reachable_run) (rule reachable.constructed)

lemma reachable_moving: "reachable moving_stream"
  unfolding moving_stream_def by (rule reachable.updated) (rule reachable_rest)

lemma finishCalibration_installs:
  "motionThresholds (finishCalibration s)
     = thresholds_of (Math_max (Fin 300) (js_mul (calibrationNoise (finishCalibration s)) (Fin 4)))"
  "deadzone (finishCalibration s)
     = Math_max (Fin 250) (js_mul (calibrationNoise (finishCalibration s)) (Fin 2.5))"
  by (simp_all add: finishCalibration_def Let_def)

lemma update_cases:
  "update s x y z now = s
   \<or> (calibrating s \<and> calibrating (update s x y z now)
       \<and> motion (update s x y z now) = motion s)
   \<or> (calibrating s \<and> (\<exists>t. update s x y z now = (finishCalibration t)\<lparr>lastUpdate := now\<rparr>
                              \<and> motion t = motion s))
   \<or> (\<not> calibrating s \<and> \<not> calibrating (update s x y z now)
       \<and> motion (update s x y z now) \<le> 5
       \<and> motionThresholds (update s x y z now) = motionThresholds s
       \<and> deadzone (update s x y z now) = deadzone s
       \<and> calibrationNoise (update s x y z now) = calibrationNoise s)"
proof (cases "isNaN x \<or> isNaN y \<or> isNaN z")
  case True
  then show ?thesis by (simp add: update_def)
next
  case valid: False
  show ?thesis
  proof (cases "calibrating s")
    case False
    with valid show ?thesis by (simp add: update_ready)
  next
    case True
    show ?thesis
    proof (cases "Suc (length (calibrationData s)) < 60")
      case True
      with \<open>calibrating s\<close> valid show ?thesis by (simp add: update_def Let_def)
    next
      case False
      with \<open>calibrating s\<close> valid have
        "update s x y z now = (finishCalibration (s\<lparr>rawX := x, rawY := y, rawZ := z,
            calibrationData := calibrationData s @ [(x, y, z)],
            smoothedX := x, smoothedY := y, smoothedZ := z\<rparr>))\<lparr>lastUpdate := now\<rparr>"
        by (simp add: update_def Let_def)
      with \<open>calibrating s\<close> show ?thesis by force
    qed
  qed
qed

lemma reachable_calibrated:
  assumes "reachable s"
  shows "motion s \<le> 5 \<and>
         (\<not> calibrating s \<longrightarrow>
            motionThresholds s
              = thresholds_of (Math_max (Fin 300) (js_mul (calibrationNoise s) (Fin 4)))
          \<and> deadzone s = Math_max (Fin 250) (js_mul (calibrationNoise s) (Fin 2.5)))"
  using assms
proof (induction rule: reachable.induct)
  case (constructed i now)
  then show ?case by (simp add: new_DataStream_def)
next
  case (updated s x y z now)
  from update_cases [of s x y z now] show ?case
  proof (elim disjE conjE exE)
    assume "update s x y z now = s"
    with updated.IH show ?thesis by simp
  next
    assume "calibrating (update s x y z now)" "motion (update s x y z now) = motion s"
    with updated.IH show ?thesis by simp
  next
    fix t
    assume "update s x y z now = (finishCalibration t)\<lparr>lastUpdate := now\<rparr>"
      and "motion t = motion s"
    with updated.IH show ?thesis
      by (simp add: finishCalibration_installs finishCalibration_frame)
  next
    assume "\<not> calibrating s" "motion (update s x y z now) \<le> 5"
      "motionThresholds (update s x y z now) = motionThresholds s"
      "deadzone (update s x y z now) = deadzone s"
      "calibrationNoise (update s x y z now) = calibrationNoise s"
    with updated.IH show ?thesis by simp
  qed
next
  case (recalibrated s)
  then show ?case by (simp add: startCalibration_def)
qed

lemma run_calibration_phase:
  assumes "calibrating s" "calibrationData s = []" "list_all valid_sample ss"
  shows "calibrating (run s ss) \<longleftrightarrow> length ss < 60"
proof (cases "length ss < 60")
  case True
  with assms show ?thesis by (simp add: run_collect_fields)
next
  case False
  have v: "list_all valid_sample (take 60 ss)"
    using assms(3) by (auto simp: list_all_iff dest: in_set_takeD)
  have l: "length (take 60 ss) = 60" using False by simp
  note six = run_sixty [OF assms(1,2) v l]
  have "run s ss = run (run s (take 60 ss)) (drop 60 ss)"
    by (simp add: run_append [symmetric])
  with run_ready_frame [OF six(1)] False show ?thesis by simp
qed

lemma run_after_sixty:
  assumes "calibrating s" "calibrationData s = []" "list_all valid_sample ss" "60 \<le> length ss"
  shows "calibration_result (run s ss)
           = calibration_result (finishCalibration (s\<lparr>calibrationData := map coords (take 60 ss)\<rparr>))"
    and "calibrationData (run s ss) = map coords (take 60 ss)"
proof -
  have v: "list_all valid_sample (take 60 ss)"
    using assms(3) by (auto simp: list_all_iff dest: in_set_takeD)
  have l: "length (take 60 ss) = 60" using assms(4) by simp
  note six = run_sixty [OF assms(1,2) v l]
  have r: "run s ss = run (run s (take 60 ss)) (drop 60 ss)"
    by (simp add: run_append [symmetric])
  show "calibration_result (run s ss)
           = calibration_result (finishCalibration (s\<lparr>calibrationData := map coords (take 60 ss)\<rparr>))"
    unfolding r using run_ready_frame [OF six(1)] six(4) by simp
  show "calibrationData (run s ss) = map coords (take 60 ss)"
    unfolding r using run_ready_frame [OF six(1)] six(2) by simp
qed

text \<open>Each step of a run from the start of a calibration, by the branch it takes.\<close>

lemma ingest_collect_branch:
  assumes "calibrating s" "valid_sample a" "Suc (length (calibrationData s)) < 60"
  shows "ingest s a = (collect_branch s a)\<lparr>lastUpdate := sample_time a\<rparr>"
  using assms by (cases a) (simp add: update_def Let_def collect_branch_def sample_time_def)

lemma ingest_finish_branch:
  assumes "calibrating s" "valid_sample a" "Suc (length (calibrationData s)) \<ge> 60"
  shows "ingest s a = (finishCalibration (collect_branch s a))\<lparr>lastUpdate := sample_time a\<rparr>"
  using assms by (cases a) (simp add: update_def Let_def collect_branch_def sample_time_def)

lemma ingest_ready_branch:
  assumes "\<not> calibrating s" "valid_sample a"
  shows "ingest s a = ready_branch s a"
  using assms by (cases a) (simp add: update_ready ready_branch_def)

lemma run_step_branch:
  assumes "calibrating s" "calibrationData s = []" "list_all valid_sample ss" "k < length ss"
  shows "run s (take (Suc k) ss) =
     (if k < 59 then (collect_branch (run s (take k ss)) (ss ! k))
                       \<lparr>lastUpdate := sample_time (ss ! k)\<rparr>
      else if k = 59 then (finishCalibration (collect_branch (run s (take k ss)) (ss ! k)))
                       \<lparr>lastUpdate := sample_time (ss ! k)\<rparr>
      else ready_branch (run s (take k ss)) (ss ! k))"
proof -
  let ?pre = "run s (take k ss)"
  have step: "run s (take (Suc k) ss) = ingest ?pre (ss ! k)"
    using assms(4) by (simp add: take_Suc_conv_app_nth run_snoc)
  have v: "valid_sample (ss ! k)" using assms(3,4) by (simp add: list_all_length)
  have vt: "list_all valid_sample (take k ss)"
    using assms(3) by (auto simp: list_all_iff dest: in_set_takeD)
  have lk: "length (take k ss) = k" using assms(4) by simp
  show ?thesis
  proof (cases "k < 60")
    case True
    then have pre: "length (calibrationData s) + length (take k ss) < 60"
      using assms(2) lk by simp
    note f = run_collect_fields [OF assms(1) vt pre]
    have len: "length (calibrationData ?pre) = k" using f(2) assms(2) lk by simp
    show ?thesis
    proof (cases "k < 59")
      case True
      with len have "Suc (length (calibrationData ?pre)) < 60" by simp
      from ingest_collect_branch [OF f(1) v this] True show ?thesis unfolding step by simp
    next
      case False
      with \<open>k < 60\<close> have k: "k = 59" by simp
      with len have "Suc (length (calibrationData ?pre)) \<ge> 60" by simp
      from ingest_finish_branch [OF f(1) v this] k show ?thesis unfolding step by simp
    qed
  next
    case False
    with run_calibration_phase [OF assms(1,2) vt] lk have "\<not> calibrating ?pre" by simp
    from ingest_ready_branch [OF this v] False show ?thesis unfolding step by simp
  qed
qed

section \<open>Claims about the stream processor\<close>

text \<open>
  C2, as the code has it: a call of \<open>update\<close> in which any of x, y, z is NaN leaves the
  whole stream state unchanged. The guard is \<open>isNaN\<close>, so an infinite coordinate is
  not rejected.
\<close>

theorem update_rejects_NaN:
  assumes "isNaN x \<or> isNaN y \<or> isNaN z"
  shows "update s x y z now = s"
  using assms by (simp add: update_def)

text \<open>An instance of C2 at a new stream and the sample (NaN, 0, 0).\<close>

theorem update_rejects_NaN_witness:
  "update (new_DataStream 1 0) NaN (Fin 0) (Fin 0) 5 = new_DataStream 1 0"
  using update_rejects_NaN [of NaN "Fin 0" "Fin 0" "new_DataStream 1 0" 5] by simp

text \<open>
  C2 as stated fails for an infinite coordinate: the sample (+Infinity, 0, 0) changes
  a new stream.
\<close>

theorem update_accepts_infinity:
  "update (new_DataStream 1 0) PInf (Fin 0) (Fin 0) 5 \<noteq> new_DataStream 1 0"
proof
  assume "update (new_DataStream 1 0) PInf (Fin 0) (Fin 0) 5 = new_DataStream 1 0"
  then have "rawX (update (new_DataStream 1 0) PInf (Fin 0) (Fin 0) 5)
             = rawX (new_DataStream 1 0)"
    by simp
  then show False by (simp add: update_def Let_def new_DataStream_def)
qed

text \<open>
  C5: from the start of a calibration (the flag set, the buffer empty), after any
  number \<open>k\<close> of valid samples the stream is still calibrating exactly when \<open>k < 60\<close>: it
  is calibrating after 59 samples, ready after 60, and never calibrating again. Each
  sample is pinned to the branch it takes: the first 59 are collected, the 60th is
  collected and \<open>finishCalibration\<close> runs on it, and every later sample takes the ready
  branch, where \<open>finishCalibration\<close> is not run: the smoothed values move by the
  exponential average instead of being reset to the baseline, and the buffer and the
  results of the calibration stay those computed from the first 60 samples.
\<close>

theorem calibration_completes_once:
  assumes "calibrating s" "calibrationData s = []" "list_all valid_sample ss"
  shows "(\<forall>k \<le> length ss. calibrating (run s (take k ss)) \<longleftrightarrow> k < 60)
       \<and> (60 \<le> length ss \<longrightarrow>
            calibrationData (run s ss) = map coords (take 60 ss)
          \<and> calibration_result (run s ss)
              = calibration_result
                  (finishCalibration (s\<lparr>calibrationData := map coords (take 60 ss)\<rparr>)))
       \<and> (\<forall>k < length ss.
            run s (take (Suc k) ss) =
              (if k < 59 then (collect_branch (run s (take k ss)) (ss ! k))
                                \<lparr>lastUpdate := sample_time (ss ! k)\<rparr>
               else if k = 59
               then (finishCalibration (collect_branch (run s (take k ss)) (ss ! k)))
                                \<lparr>lastUpdate := sample_time (ss ! k)\<rparr>
               else ready_branch (run s (take k ss)) (ss ! k)))
       \<and> (\<forall>k < length ss. 60 \<le> k \<longrightarrow>
            (smoothedX (run s (take (Suc k) ss)), smoothedY (run s (take (Suc k) ss)),
             smoothedZ (run s (take (Suc k) ss)))
            = (smooth (smoothedX (run s (take k ss))) (fst (coords (ss ! k))),
               smooth (smoothedY (run s (take k ss))) (fst (snd (coords (ss ! k)))),
               smooth (smoothedZ (run s (take k ss))) (snd (snd (coords (ss ! k))))))"
proof (intro conjI allI impI)
  fix k assume "k \<le> length ss"
  have "list_all valid_sample (take k ss)"
    using assms(3) by (auto simp: list_all_iff dest: in_set_takeD)
  from run_calibration_phase [OF assms(1,2) this] \<open>k \<le> length ss\<close>
  show "calibrating (run s (take k ss)) \<longleftrightarrow> k < 60" by simp
next
  assume "60 \<le> length ss"
  from run_after_sixty [OF assms this]
  show "calibrationData (run s ss) = map coords (take 60 ss)"
    and "calibration_result (run s ss)
              = calibration_result
                  (finishCalibration (s\<lparr>calibrationData := map coords (take 60 ss)\<rparr>))"
    by simp_all
next
  fix k assume "k < length ss"
  from run_step_branch [OF assms this]
  show "run s (take (Suc k) ss) =
              (if k < 59 then (collect_branch (run s (take k ss)) (ss ! k))
                                \<lparr>lastUpdate := sample_time (ss ! k)\<rparr>
               else if k = 59
               then (finishCalibration (collect_branch (run s (take k ss)) (ss ! k)))
                                \<lparr>lastUpdate := sample_time (ss ! k)\<rparr>
               else ready_branch (run s (take k ss)) (ss ! k))" .
next
  fix k assume k: "k < length ss" "60 \<le> k"
  from run_step_branch [OF assms k(1)] k(2)
  have "run s (take (Suc k) ss) = ready_branch (run s (take k ss)) (ss ! k)" by simp
  then show "(smoothedX (run s (take (Suc k) ss)), smoothedY (run s (take (Suc k) ss)),
             smoothedZ (run s (take (Suc k) ss)))
            = (smooth (smoothedX (run s (take k ss))) (fst (coords (ss ! k))),
               smooth (smoothedY (run s (take k ss))) (fst (snd (coords (ss ! k)))),
               smooth (smoothedZ (run s (take k ss))) (snd (snd (coords (ss ! k)))))"
    by (cases "ss ! k") (simp add: ready_branch_def)
qed

text \<open>
  An instance of C5: 60 samples of a device at rest fed to a new stream, then one
  sample 1000 mg away. The 61st sample takes the ready branch: the smoothed x value is
  150, where a second run of \<open>finishCalibration\<close> would have put the baseline 0.
\<close>

theorem calibration_completes_once_witness:
  "calibrating (run (new_DataStream 1 0)
      (take 59 (replicate 60 rest_sample @ [(Fin 1000, Fin 0, Fin 0, 100)])))
   \<and> \<not> calibrating (run (new_DataStream 1 0)
      (take 60 (replicate 60 rest_sample @ [(Fin 1000, Fin 0, Fin 0, 100)])))
   \<and> \<not> calibrating (run (new_DataStream 1 0)
      (take 61 (replicate 60 rest_sample @ [(Fin 1000, Fin 0, Fin 0, 100)])))
   \<and> calibrationData (run (new_DataStream 1 0)
        (replicate 60 rest_sample @ [(Fin 1000, Fin 0, Fin 0, 100)]))
       = replicate 60 (Fin 0, Fin 0, Fin 0)
   \<and> run (new_DataStream 1 0) (replicate 60 rest_sample @ [(Fin 1000, Fin 0, Fin 0, 100)])
       = ready_branch calibrated_at_rest (Fin 1000, Fin 0, Fin 0, 100)
   \<and> smoothedX (run (new_DataStream 1 0)
        (replicate 60 rest_sample @ [(Fin 1000, Fin 0, Fin 0, 100)])) = Fin 150"
proof -
  let ?ss = "replicate 60 rest_sample @ [(Fin 1000, Fin 0, Fin 0, 100)]"
  have c: "calibrating (new_DataStream 1 0)" "calibrationData (new_DataStream 1 0) = []"
    by (simp_all add: new_DataStream_def)
  have v: "list_all valid_sample ?ss"
    using valid_rest [of 60] by simp
  have t: "take 60 ?ss = replicate 60 rest_sample" "take (Suc 60) ?ss = ?ss"
    "take 61 ?ss = ?ss" "?ss ! 60 = (Fin 1000, Fin 0, Fin 0, 100)" "length ?ss = 61"
    by (simp_all add: nth_append)
  have sx: "smoothedX calibrated_at_rest = Fin 0" by (simp add: calibrated_at_rest_eq)
  note th = calibration_completes_once [OF c v]
  note phase = th [THEN conjunct1, rule_format]
  note result = th [THEN conjunct2, THEN conjunct1, rule_format]
  note branch = th [THEN conjunct2, THEN conjunct2, THEN conjunct1, rule_format]
  have a59: "calibrating (run (new_DataStream 1 0) (take 59 ?ss))"
    using phase [of 59] by (simp add: t(5))
  have a60: "\<not> calibrating (run (new_DataStream 1 0) (take 60 ?ss))"
    using phase [of 60] by (simp add: t(5))
  have a61: "\<not> calibrating (run (new_DataStream 1 0) (take 61 ?ss))"
    using phase [of 61] by (simp add: t(5))
  have b: "calibrationData (run (new_DataStream 1 0) ?ss) = replicate 60 (Fin 0, Fin 0, Fin 0)"
    using result by (simp add: t rest_sample_def)
  have "run (new_DataStream 1 0) (take (Suc 60) ?ss)
      = ready_branch (run (new_DataStream 1 0) (take 60 ?ss)) (?ss ! 60)"
    using branch [of 60] by (simp add: t(5))
  then have r: "run (new_DataStream 1 0) ?ss
      = ready_branch calibrated_at_rest (Fin 1000, Fin 0, Fin 0, 100)"
    unfolding t calibrated_at_rest_def .
  have s150: "smoothedX (ready_branch calibrated_at_rest (Fin 1000, Fin 0, Fin 0, 100)) = Fin 150"
    by (simp add: ready_branch_def sx smooth_def js_sub_def)
  from a59 a60 a61 b r s150 show ?thesis
    by (simp only: simp_thms)
qed

text \<open>
  C8, as the code has it: \<open>startCalibration\<close> on a calibrated stream sets the flag and
  empties the buffer; while fewer than 60 valid samples have been ingested since, the
  stream stays calibrating and its motion level keeps the value it had, and the
  smoothed values are those of the latest sample (the earlier ones if there was none).
\<close>

theorem recalibration_keeps_motion:
  assumes "\<not> calibrating s" "list_all valid_sample ss" "length ss < 60"
  shows "calibrating (startCalibration s) \<and> calibrationData (startCalibration s) = []
       \<and> calibrating (run (startCalibration s) ss)
       \<and> motion (run (startCalibration s) ss) = motion s
       \<and> (smoothedX (run (startCalibration s) ss), smoothedY (run (startCalibration s) ss),
          smoothedZ (run (startCalibration s) ss))
         = (if ss = [] then (smoothedX s, smoothedY s, smoothedZ s) else coords (last ss))"
proof -
  let ?c = "startCalibration s"
  have c: "calibrating ?c" and d: "calibrationData ?c = []"
    by (simp_all add: startCalibration_def)
  have l: "length (calibrationData ?c) + length ss < 60" using d assms(3) by simp
  note f = run_collect_fields [OF c assms(2) l]
  have sm: "(smoothedX (run ?c ss), smoothedY (run ?c ss), smoothedZ (run ?c ss))
         = (if ss = [] then (smoothedX s, smoothedY s, smoothedZ s) else coords (last ss))"
  proof (cases "ss = []")
    case True
    then show ?thesis by (simp add: run_Nil startCalibration_def)
  next
    case False
    from run_collect [OF c assms(2) l False] False show ?thesis by simp
  qed
  from c d f(1) f(3) sm show ?thesis by (simp add: startCalibration_def)
qed

text \<open>An instance of C8: the moving stream, recalibrated, then one sample.\<close>

theorem recalibration_keeps_motion_witness:
  "motion (run (startCalibration moving_stream) [(Fin 5, Fin 6, Fin 7, 200)]) = 2
   \<and> smoothedX (run (startCalibration moving_stream) [(Fin 5, Fin 6, Fin 7, 200)]) = Fin 5"
proof -
  have "\<not> calibrating moving_stream" by (simp add: moving_stream_eq)
  from recalibration_keeps_motion [OF this, of "[(Fin 5, Fin 6, Fin 7, 200)]"]
  show ?thesis by (simp add: moving_stream_eq)
qed

text \<open>
  C8 as stated fails: the first sample after the recalibration overwrites the
  smoothed value.
\<close>

theorem recalibration_overwrites_smoothed:
  "smoothedX (run (startCalibration moving_stream) [(Fin 5, Fin 6, Fin 7, 200)])
     \<noteq> smoothedX moving_stream"
proof -
  have "ingest (startCalibration moving_stream) (Fin 5, Fin 6, Fin 7, 200)
        = (startCalibration moving_stream)\<lparr>rawX := Fin 5, rawY := Fin 6, rawZ := Fin 7,
            calibrationData := calibrationData (startCalibration moving_stream) @ [(Fin 5, Fin 6, Fin 7)],
            smoothedX := Fin 5, smoothedY := Fin 6, smoothedZ := Fin 7, lastUpdate := 200\<rparr>"
    by (subst ingest_collect) (simp_all add: startCalibration_def)
  then show ?thesis
    by (simp add: run_Cons run_Nil moving_stream_eq)
qed



section \<open>Classification of a calibrated stream\<close>

lemma base_threshold_cases:
  "Math_max (Fin 300) (js_mul n (Fin 4)) = NaN
   \<or> Math_max (Fin 300) (js_mul n (Fin 4)) = PInf
   \<or> (\<exists>r. 300 \<le> r \<and> Math_max (Fin 300) (js_mul n (Fin 4)) = Fin r)"
  by (cases n) (auto simp: Math_max_def)

lemma reachable_thresholds:
  assumes "reachable s" "\<not> calibrating s"
  shows "motionThresholds s = replicate 6 NaN
       \<or> motionThresholds s = replicate 6 PInf
       \<or> (\<exists>r. 300 \<le> r \<and> motionThresholds s
              = [Fin r, Fin (r * 1.8), Fin (r * 3.5), Fin (r * 6), Fin (r * 10), Fin (r * 16)])"
proof -
  have six: "replicate 6 v = [v, v, v, v, v, v]" for v :: jsnum
    by (simp add: numeral_eq_Suc)
  from reachable_calibrated [OF assms(1)] assms(2)
  have t: "motionThresholds s
      = thresholds_of (Math_max (Fin 300) (js_mul (calibrationNoise s) (Fin 4)))"
    by simp
  from base_threshold_cases [of "calibrationNoise s"] show ?thesis
  proof (elim disjE exE conjE)
    assume "Math_max (Fin 300) (js_mul (calibrationNoise s) (Fin 4)) = NaN"
    with t show ?thesis by (simp add: thresholds_of_def six)
  next
    assume "Math_max (Fin 300) (js_mul (calibrationNoise s) (Fin 4)) = PInf"
    with t show ?thesis by (simp add: thresholds_of_def six)
  next
    fix r :: real
    assume "300 \<le> r" "Math_max (Fin 300) (js_mul (calibrationNoise s) (Fin 4)) = Fin r"
    with t show ?thesis by (simp add: thresholds_of_def)
  qed
qed

lemma effective_cases:
  "effectiveDistance s x y z = Fin 0
   \<or> \<not> js_lt (effectiveDistance s x y z) (deadzone s)"
  by (simp add: effectiveDistance_def Let_def)

lemma effective_below_deadzone:
  "js_lt (effectiveDistance s x y z) (deadzone s) \<Longrightarrow> effectiveDistance s x y z = Fin 0"
  using effective_cases [of s x y z] by simp


lemmas scan_defs = candidateLevel_def scan_levels_5 js_index_def to_number_def js_ge_def


lemma candidate_still:
  assumes "reachable s" "\<not> calibrating s"
  shows "candidateLevel s (Fin 0) = motion s"
  using reachable_thresholds [OF assms(1,2)]
proof (elim disjE exE conjE)
  fix r :: real
  assume r: "300 \<le> r"
    and t: "motionThresholds s
              = [Fin r, Fin (r * 1.8), Fin (r * 3.5), Fin (r * 6), Fin (r * 10), Fin (r * 16)]"
  from r have "0 < r" "0 < r * 1.8" "0 < r * 3.5" "0 < r * 6" "0 < r * 10" "0 < r * 16"
    by simp_all
  with t show ?thesis by (simp add: scan_defs)
qed (simp_all add: scan_defs)

lemma candidate_decrease:
  assumes "reachable s" "\<not> calibrating s" "candidateLevel s eff < motion s"
  shows "\<exists>r e. 300 \<le> r \<and> r \<le> e \<and> eff = Fin e
           \<and> motionThresholds s
              = [Fin r, Fin (r * 1.8), Fin (r * 3.5), Fin (r * 6), Fin (r * 10), Fin (r * 16)]"
proof -
  from reachable_calibrated [OF assms(1)] have m: "motion s \<le> 5" by simp
  from reachable_thresholds [OF assms(1,2)] show ?thesis
  proof (elim disjE exE conjE)
    assume "motionThresholds s = replicate 6 NaN"
    with assms(3) show ?thesis by (simp add: scan_defs)
  next
    assume "motionThresholds s = replicate 6 PInf"
    with assms(3) m show ?thesis
      by (cases eff) (simp_all add: scan_defs split: if_splits)
  next
    fix r :: real
    assume r: "300 \<le> r"
      and t: "motionThresholds s
              = [Fin r, Fin (r * 1.8), Fin (r * 3.5), Fin (r * 6), Fin (r * 10), Fin (r * 16)]"
    show ?thesis
    proof (cases eff)
      case (Fin e)
      have "r \<le> e"
      proof (rule ccontr)
        assume "\<not> r \<le> e"
        then have "e < r" by simp
        with r have "e < r * 1.8" "e < r * 3.5" "e < r * 6" "e < r * 10" "e < r * 16"
          by simp_all
        with \<open>e < r\<close> t Fin assms(3) show False by (simp add: scan_defs)
      qed
      with r t Fin show ?thesis by simp
    next
      case PInf
      with t assms(3) m show ?thesis by (simp add: scan_defs)
    next
      case NInf
      with t assms(3) show ?thesis by (simp add: scan_defs)
    next
      case NaN
      with t assms(3) show ?thesis by (simp add: scan_defs)
    qed
  qed
qed

lemma still_sample_cong:
  assumes "calibration_result s' = calibration_result s"
  shows "still_sample s' a = still_sample s a"
  using assms
  by (cases a) (simp add: calibration_result_def effectiveDistance_def euclideanDistance_def)


lemma update_still:
  assumes "reachable s" "\<not> calibrating s" "\<not> isNaN x" "\<not> isNaN y" "\<not> isNaN z"
    and "js_lt (effectiveDistance s x y z) (deadzone s)"
  shows "after_stuck_check s (effectiveDistance s x y z) now
         = (if 0 < motion s \<and> 2000 < now - lastMotionTime s then 0 else motion s)"
proof -
  from effective_below_deadzone [OF assms(6)]
  have e: "effectiveDistance s x y z = Fin 0" .
  with assms(6) have "js_lt (Fin 0) (deadzone s)" by simp
  with candidate_still [OF assms(1,2)] show ?thesis
    unfolding e by (simp add: after_stuck_check_def after_hysteresis_def Let_def)
qed

lemma run_still_zero:
  assumes "reachable s" "\<not> calibrating s" "motion s = 0" "list_all (still_sample s) ss"
  shows "motion (run s ss) = 0 \<and> lastMotionTime (run s ss) = lastMotionTime s"
  using assms
proof (induction ss arbitrary: s)
  case Nil
  then show ?case by (simp add: run_Nil)
next
  case (Cons a ss)
  obtain x y z t where a: "a = (x, y, z, t)" by (cases a) auto
  from Cons.prems(4) a have v: "\<not> isNaN x" "\<not> isNaN y" "\<not> isNaN z"
    and st: "js_lt (effectiveDistance s x y z) (deadzone s)"
    by simp_all
  from update_still [OF Cons.prems(1,2) v st, of t] Cons.prems(3)
  have k: "after_stuck_check s (effectiveDistance s x y z) t = 0" by simp
  have m: "motion (ingest s a) = 0" "lastMotionTime (ingest s a) = lastMotionTime s"
    unfolding a using Cons.prems(2,3) v k by (simp_all add: update_ready)
  have r: "reachable (ingest s a)" unfolding a using Cons.prems(1)
    by (simp add: reachable.updated)
  have c: "\<not> calibrating (ingest s a)" using Cons.prems(2) by (simp add: ingest_ready_frame)
  have "list_all (still_sample (ingest s a)) ss"
    using Cons.prems(4) still_sample_cong [OF ingest_ready_frame(3) [OF Cons.prems(2), of a]]
    by (simp add: list_all_iff)
  from Cons.IH [OF r c m(1) this] m(2) show ?case by (simp add: run_Cons)
qed

text \<open>
  C6: in a reachable stream that is not calibrating and has a motion level above 0, a
  valid sample whose effective distance is below the deadzone and that arrives more than
  2000 ms after the last change of the level sets the level to 0 and the time of the
  last change to the time of the sample. The reset does not fire again: over any
  further samples that keep the stream still, the level stays 0 and the time of the
  last change stays where the reset put it.
\<close>

theorem stuck_reset_fires_once:
  assumes "reachable s" "\<not> calibrating s" "0 < motion s"
    and "\<not> isNaN x" "\<not> isNaN y" "\<not> isNaN z"
    and "js_lt (effectiveDistance s x y z) (deadzone s)"
    and "2000 < now - lastMotionTime s"
  shows "motion (update s x y z now) = 0 \<and> lastMotionTime (update s x y z now) = now
       \<and> (\<forall>ss. list_all (still_sample (update s x y z now)) ss \<longrightarrow>
             motion (run (update s x y z now) ss) = 0
           \<and> lastMotionTime (run (update s x y z now) ss) = now)"
proof -
  let ?u = "update s x y z now"
  from update_still [OF assms(1,2,4,5,6,7), of now] assms(3,8)
  have k: "after_stuck_check s (effectiveDistance s x y z) now = 0" by simp
  have m: "motion ?u = 0" "lastMotionTime ?u = now"
    using assms(2,3,4,5,6) k by (simp_all add: update_ready)
  have r: "reachable ?u" using assms(1) by (rule reachable.updated)
  have c: "\<not> calibrating ?u"
    using ingest_ready_frame(1) [OF assms(2), of "(x, y, z, now)"] by simp
  show ?thesis
  proof (intro conjI allI impI)
    fix ss assume "list_all (still_sample ?u) ss"
    from run_still_zero [OF r c m(1) this] m(2)
    show "motion (run ?u ss) = 0" "lastMotionTime (run ?u ss) = now" by simp_all
  qed (fact m)+
qed

lemma moving_fields:
  "calibrating moving_stream = False"
  "baseX moving_stream = Fin 0"
  "baseY moving_stream = Fin 0"
  "baseZ moving_stream = Fin 0"
  "deadzone moving_stream = Fin 250"
  "motionThresholds moving_stream
     = [Fin 300, Fin 540, Fin 1050, Fin 1800, Fin 3000, Fin 4800]"
  "motion moving_stream = 2"
  "lastMotionTime moving_stream = 100"
  by (simp_all add: moving_stream_eq)

lemma moving_effective:
  "effectiveDistance moving_stream (Fin 0) (Fin 0) (Fin 0) = Fin 0"
  "effectiveDistance moving_stream (Fin 280) (Fin 0) (Fin 0) = Fin 280"
  "effectiveDistance moving_stream (Fin 480) (Fin 0) (Fin 0) = Fin 480"
  by (simp_all add: effectiveDistance_def Let_def distance_on_x_axis moving_fields)

lemma moving_bound: "decrease_bound moving_stream = Fin 480"
  by (simp add: decrease_bound_def hysteresis_def moving_fields js_index_def to_number_def
      js_sub_def)

lemma moving_candidate:
  "candidateLevel moving_stream (Fin 280) = 2"
  "candidateLevel moving_stream (Fin 480) = 1"
  by (simp_all add: scan_defs moving_fields)

text \<open>
  An instance of C6: the moving stream (level 2, last change at 100) and a sample at
  rest at 2101, followed by another at 9000.
\<close>

theorem stuck_reset_fires_once_witness:
  "motion (update moving_stream (Fin 0) (Fin 0) (Fin 0) 2101) = 0
   \<and> lastMotionTime (update moving_stream (Fin 0) (Fin 0) (Fin 0) 2101) = 2101
   \<and> motion (run (update moving_stream (Fin 0) (Fin 0) (Fin 0) 2101)
               [(Fin 0, Fin 0, Fin 0, 9000)]) = 0
   \<and> lastMotionTime (run (update moving_stream (Fin 0) (Fin 0) (Fin 0) 2101)
               [(Fin 0, Fin 0, Fin 0, 9000)]) = 2101"
proof -
  let ?u = "update moving_stream (Fin 0) (Fin 0) (Fin 0) 2101"
  have c: "\<not> calibrating moving_stream" by (simp add: moving_fields)
  have st: "still_sample moving_stream (Fin 0, Fin 0, Fin 0, 9000)"
    by (simp add: moving_effective moving_fields)
  have "calibration_result ?u = calibration_result moving_stream"
    using ingest_ready_frame(3) [OF c, of "(Fin 0, Fin 0, Fin 0, 2101)"] by simp
  from still_sample_cong [OF this, of "(Fin 0, Fin 0, Fin 0, 9000)"] st
  have "still_sample ?u (Fin 0, Fin 0, Fin 0, 9000)" by blast
  then have l: "list_all (still_sample ?u) [(Fin 0, Fin 0, Fin 0, 9000)]"
    by (simp del: still_sample.simps)
  from stuck_reset_fires_once [OF reachable_moving c, of "Fin 0" "Fin 0" "Fin 0" 2101] l
  show ?thesis by (simp add: moving_effective moving_fields)
qed

lemma moving_more:
  "effectiveDistance moving_stream (Fin 500) (Fin 0) (Fin 0) = Fin 500"
  "candidateLevel moving_stream (Fin 500) = 1"
  "candidateLevel moving_stream (Fin 0) = 2"
  by (simp_all add: effectiveDistance_def Let_def distance_on_x_axis moving_fields scan_defs)

lemma moving_checks:
  "after_stuck_check moving_stream (Fin 0) 200 = 2"
  "after_stuck_check moving_stream (Fin 480) 200 = 1"
  by (simp_all add: after_stuck_check_def after_hysteresis_def Let_def moving_more
      moving_candidate moving_bound moving_fields js_gt_def)

lemma moving_updates:
  "motion (update moving_stream (Fin 0) (Fin 0) (Fin 0) 200) = 2"
  "motion (update moving_stream (Fin 480) (Fin 0) (Fin 0) 200) = 1"
  by (simp_all add: update_ready moving_fields moving_effective moving_checks)

lemma js_sub_Fin: "js_sub (Fin a) (Fin c) = Fin (a - c)"
  by (simp add: js_sub_def)




text \<open>
  C3, as the code has it: in a reachable stream that is not calibrating, when the
  candidate of a valid sample is below the current motion level, the decrease is
  accepted if and only if the effective distance is at most
  \<open>motionThresholds[motion - 1] - 0.2 * motionThresholds[0]\<close>, and the level is held if
  and only if it is greater; at equality the decrease is accepted.
\<close>

theorem decrease_accepted_up_to_bound:
  assumes "reachable s" "\<not> calibrating s" "\<not> isNaN x" "\<not> isNaN y" "\<not> isNaN z"
    and "candidateLevel s (effectiveDistance s x y z) < motion s"
  shows "(motion (update s x y z now) = candidateLevel s (effectiveDistance s x y z)
            \<longleftrightarrow> js_le (effectiveDistance s x y z) (decrease_bound s))
       \<and> (motion (update s x y z now) = motion s
            \<longleftrightarrow> js_gt (effectiveDistance s x y z) (decrease_bound s))
       \<and> (effectiveDistance s x y z = decrease_bound s
            \<longrightarrow> motion (update s x y z now) = candidateLevel s (effectiveDistance s x y z))"
proof -
  let ?eff = "effectiveDistance s x y z"
  from reachable_calibrated [OF assms(1)] have m5: "motion s \<le> 5" by simp
  from candidate_decrease [OF assms(1,2,6)] obtain r e where
    r: "300 \<le> r" and re: "r \<le> e" and e: "?eff = Fin e"
    and t: "motionThresholds s
              = [Fin r, Fin (r * 1.8), Fin (r * 3.5), Fin (r * 6), Fin (r * 10), Fin (r * 16)]"
    by blast
  from assms(6) m5 have "motion s = 1 \<or> motion s = 2 \<or> motion s = 3 \<or> motion s = 4
                          \<or> motion s = 5"
    by arith
  then have "decrease_bound s \<noteq> NaN \<and> decrease_bound s \<noteq> PInf
             \<and> decrease_bound s \<noteq> NInf"
    by (elim disjE)
       (simp_all add: decrease_bound_def hysteresis_def t js_index_def to_number_def
          js_sub_Fin)
  then obtain b where b: "decrease_bound s = Fin b"
    by (cases "decrease_bound s") simp_all
  from effective_cases [of s x y z] e r re have nd: "\<not> js_lt ?eff (deadzone s)" by auto
  from assms(6) have pos: "0 < motion s" by simp
  have k: "after_stuck_check s ?eff now
           = (if b < e then motion s else candidateLevel s ?eff)"
    using nd pos assms(6)
    by (simp add: after_stuck_check_def after_hysteresis_def Let_def b js_gt_def)
       (simp add: e)
  have u: "motion (update s x y z now)
           = (if b < e then motion s else candidateLevel s ?eff)"
    using assms(2,3,4,5,6) m5 k by (simp add: update_ready)
  from assms(6) have ne: "candidateLevel s ?eff \<noteq> motion s" by simp
  show ?thesis
    unfolding u b using ne
    by (auto simp: e js_le_def js_ge_def js_gt_def)
qed

text \<open>
  An instance of C3: the moving stream (level 2, bound 480) and a sample 500 mg from
  the baseline: the candidate is 1 and the level is held at 2.
\<close>

theorem decrease_accepted_up_to_bound_witness:
  "js_gt (effectiveDistance moving_stream (Fin 500) (Fin 0) (Fin 0))
         (decrease_bound moving_stream)
   \<and> motion (update moving_stream (Fin 500) (Fin 0) (Fin 0) 200) = 2"
proof -
  have c: "\<not> calibrating moving_stream" by (simp add: moving_fields)
  from decrease_accepted_up_to_bound
         [OF reachable_moving c, of "Fin 500" "Fin 0" "Fin 0" 200]
  show ?thesis
    by (simp add: moving_more moving_fields moving_bound js_gt_def)
qed

text \<open>
  C3 as stated fails at equality: for the moving stream and a sample exactly 480 mg
  from the baseline the level is not held.
\<close>

theorem decrease_accepted_at_bound:
  "effectiveDistance moving_stream (Fin 480) (Fin 0) (Fin 0) = decrease_bound moving_stream
   \<and> candidateLevel moving_stream (effectiveDistance moving_stream (Fin 480) (Fin 0) (Fin 0))
       < motion moving_stream
   \<and> motion (update moving_stream (Fin 480) (Fin 0) (Fin 0) 200) \<noteq> motion moving_stream"
  by (simp add: moving_effective moving_bound moving_candidate moving_fields moving_updates)

section \<open>Claims about the message parser\<close>

lemma match_data_range:
  assumes "match_data msg = Some i"
  shows "1 \<le> i \<and> i \<le> 6 \<and> match_registration msg = None"
proof -
  from assms obtain d rest where msg: "msg = CHR ''m'' # d # rest" and d: "id_digit d = Some i"
    by (auto simp: match_data_def split: list.splits if_splits)
  from d have "1 \<le> i \<and> i \<le> 6"
    by (auto simp: id_digit_def split: if_splits)
  moreover from msg have "match_registration msg = None"
    by (simp add: match_registration_def split: list.splits)
  ultimately show ?thesis by simp
qed

text \<open>
  C10: a line that matches the data pattern with an id in 1..6 and lacks a match for
  one of the axis patterns still registers the stream when it is absent (the new entry
  is calibrating, with an empty buffer); the sample is discarded, and when the stream
  exists the registry is left as it was.
\<close>

theorem data_line_missing_axis:
  assumes "match_data msg = Some i"
    and "match_axis CHR ''x'' msg = None \<or> match_axis CHR ''y'' msg = None
         \<or> match_axis CHR ''z'' msg = None"
  shows "1 \<le> i \<and> i \<le> 6
       \<and> (streamData g i = None \<longrightarrow>
            streamData (parseMessage parseFloat now msg g)
              = (streamData g)(i \<mapsto> new_DataStream i now)
          \<and> calibrating (new_DataStream i now)
          \<and> calibrationData (new_DataStream i now) = [])
       \<and> (streamData g i \<noteq> None \<longrightarrow>
            streamData (parseMessage parseFloat now msg g) = streamData g)"
proof -
  note r = match_data_range [OF assms(1)]
  have new: "streamData g i = None \<Longrightarrow>
      streamData (parseMessage parseFloat now msg g)
        = (streamData g)(i \<mapsto> new_DataStream i now)"
    using assms r
    by (auto simp: parseMessage_def Let_def split: option.splits)
  have old: "streamData g i \<noteq> None \<Longrightarrow>
      streamData (parseMessage parseFloat now msg g) = streamData g"
    using assms r
    by (auto simp: parseMessage_def Let_def map_upd_triv split: option.splits)
  from r new old show ?thesis by (simp add: new_DataStream_def)
qed

text \<open>The line \<open>m3 x=1 y=2\<close>, which has no z token.\<close>

lemma short_line_matches:
  "match_data ''m3 x=1 y=2'' = Some 3"
  "match_axis CHR ''z'' ''m3 x=1 y=2'' = None"
  by (simp_all add: match_data_def id_digit_def)

text \<open>
  An instance of C10: the line \<open>m3 x=1 y=2\<close> parsed with an empty registry, and with a
  registry that holds stream 3.
\<close>

theorem data_line_missing_axis_witness:
  "streamData (parseMessage (\<lambda>t. NaN) 7 ''m3 x=1 y=2''
                 \<lparr>streamData = Map.empty, messageCount = 0\<rparr>)
     = [3 \<mapsto> new_DataStream 3 7]
   \<and> streamData (parseMessage (\<lambda>t. NaN) 7 ''m3 x=1 y=2''
                 \<lparr>streamData = [3 \<mapsto> moving_stream], messageCount = 0\<rparr>)
     = [3 \<mapsto> moving_stream]"
proof -
  have z: "match_axis CHR ''x'' ''m3 x=1 y=2'' = None \<or> match_axis CHR ''y'' ''m3 x=1 y=2'' = None
         \<or> match_axis CHR ''z'' ''m3 x=1 y=2'' = None"
    by (simp add: short_line_matches)
  from data_line_missing_axis [OF short_line_matches(1) z,
         of "\<lparr>streamData = Map.empty, messageCount = 0\<rparr>" "\<lambda>t. NaN" 7]
       data_line_missing_axis [OF short_line_matches(1) z,
         of "\<lparr>streamData = [3 \<mapsto> moving_stream], messageCount = 0\<rparr>" "\<lambda>t. NaN" 7]
  show ?thesis by simp
qed


text \<open>The line \<open>m12 x=1 y=1 z=1\<close>.\<close>

lemma long_id_matches:
  "match_registration ''m12 x=1 y=1 z=1'' = None"
  "match_data ''m12 x=1 y=1 z=1'' = Some 1"
  "match_axis CHR ''x'' ''m12 x=1 y=1 z=1'' = Some ''1''"
  "match_axis CHR ''y'' ''m12 x=1 y=1 z=1'' = Some ''1''"
  "match_axis CHR ''z'' ''m12 x=1 y=1 z=1'' = Some ''1''"
  by (simp_all add: match_registration_def match_data_def id_digit_def axis_char_def
      is_space_def)

text \<open>
  C4 at the line \<open>m12 x=1 y=1 z=1\<close>: the data pattern \<open>/^m([1-6])/\<close> matches its
  first two characters, so the line creates stream 1 and feeds it the sample, whatever
  \<open>parseFloat\<close> makes of the text \<open>1\<close>. The registration pattern is anchored at the
  end, and \<open>S12\<close>, \<open>S7\<close> and \<open>m7 x=1 y=1 z=1\<close> leave the registry as it was.
\<close>

theorem data_id_prefix_reaches_registry:
  "streamData (parseMessage parseFloat now ''m12 x=1 y=1 z=1''
                 \<lparr>streamData = Map.empty, messageCount = 0\<rparr>)
     = [1 \<mapsto> update (new_DataStream 1 now) (parseFloat ''1'') (parseFloat ''1'')
                      (parseFloat ''1'') now]
   \<and> streamData (parseMessage parseFloat now ''S12''
                 \<lparr>streamData = Map.empty, messageCount = 0\<rparr>) = Map.empty
   \<and> streamData (parseMessage parseFloat now ''S7''
                 \<lparr>streamData = Map.empty, messageCount = 0\<rparr>) = Map.empty
   \<and> streamData (parseMessage parseFloat now ''m7 x=1 y=1 z=1''
                 \<lparr>streamData = Map.empty, messageCount = 0\<rparr>) = Map.empty"
proof -
  have other:
    "match_registration ''S12'' = None" "match_data ''S12'' = None"
    "match_registration ''S7'' = None" "match_data ''S7'' = None"
    "match_registration ''m7 x=1 y=1 z=1'' = None" "match_data ''m7 x=1 y=1 z=1'' = None"
    by (simp_all add: match_registration_def match_data_def id_digit_def)
  show ?thesis
    by (simp add: parseMessage_def Let_def long_id_matches other del: match_axis.simps)
qed

section \<open>Claims about the ingestion scheduler\<close>





















end
